theory Spec2Isabelle
  imports Complex_Main "HOL-Library.Multiset"
begin

section \<open>Python values\<close>

text \<open>
  The two programs, \<^verbatim>\<open>lab6a.py\<close> (the base variant) and \<^verbatim>\<open>lab6a_advanced.py\<close> (the
  advanced variant), are dynamically typed. The values that reach their methods are
  modelled by \<open>pyval\<close>: numbers, strings and \<open>None\<close> (standing for a value that is
  neither a number nor a string).

  A Python \<open>float\<close> is an IEEE double. It is modelled by its value: a finite double is
  the rational it denotes, beside the two infinities and NaN. Every finite double is a
  rational, so a statement about every \<open>Finite r\<close> covers every finite double. The
  comparisons below are exact on doubles, so they are modelled exactly. Arithmetic on
  doubles rounds, and is not modelled by value: see \<open>float_ops\<close>.
\<close>

datatype pyfloat = Finite rat | PosInf | NegInf | NaN

datatype pynum = PBool bool | PInt int | PFloat pyfloat

datatype pyval = PNum pynum | PStr string | PNone

datatype pyerr =
  TypeError | ValueError | KeyError | IndexError | InvalidCourseError | InvalidGradeError

text \<open>IEEE comparison: every comparison with NaN is false.\<close>

fun float_lt :: "pyfloat \<Rightarrow> pyfloat \<Rightarrow> bool" where
  "float_lt (Finite a) (Finite b) = (a < b)"
| "float_lt (Finite a) PosInf = True"
| "float_lt NegInf (Finite b) = True"
| "float_lt NegInf PosInf = True"
| "float_lt _ _ = False"

fun float_eq :: "pyfloat \<Rightarrow> pyfloat \<Rightarrow> bool" where
  "float_eq (Finite a) (Finite b) = (a = b)"
| "float_eq PosInf PosInf = True"
| "float_eq NegInf NegInf = True"
| "float_eq _ _ = False"

fun float_neg :: "pyfloat \<Rightarrow> pyfloat" where
  "float_neg (Finite a) = Finite (- a)"
| "float_neg PosInf = NegInf"
| "float_neg NegInf = PosInf"
| "float_neg NaN = NaN"

text \<open>
  \<open>bool\<close> is a subclass of \<open>int\<close> (\<open>True\<close> is 1), and Python compares an \<open>int\<close> with a
  \<open>float\<close> by their exact values.
\<close>

fun num_val :: "pynum \<Rightarrow> pyfloat" where
  "num_val (PBool b) = Finite (if b then 1 else 0)"
| "num_val (PInt i) = Finite (of_int i)"
| "num_val (PFloat f) = f"

definition py_lt :: "pynum \<Rightarrow> pynum \<Rightarrow> bool" where
  "py_lt a b = float_lt (num_val a) (num_val b)"

definition py_eq :: "pynum \<Rightarrow> pynum \<Rightarrow> bool" where
  "py_eq a b = float_eq (num_val a) (num_val b)"

definition py_le :: "pynum \<Rightarrow> pynum \<Rightarrow> bool" where
  "py_le a b = (py_lt a b \<or> py_eq a b)"

definition py_gt :: "pynum \<Rightarrow> pynum \<Rightarrow> bool" where
  "py_gt a b = py_lt b a"

definition py_ge :: "pynum \<Rightarrow> pynum \<Rightarrow> bool" where
  "py_ge a b = py_le b a"

text \<open>Unary minus: \<open>-True\<close> is the \<open>int\<close> \<open>-1\<close>.\<close>

fun py_neg :: "pynum \<Rightarrow> pynum" where
  "py_neg (PBool b) = PInt (if b then - 1 else 0)"
| "py_neg (PInt i) = PInt (- i)"
| "py_neg (PFloat f) = PFloat (float_neg f)"

text \<open>The literals \<open>0.0\<close> and \<open>4.0\<close> of the source.\<close>

abbreviation f0 :: pynum where "f0 \<equiv> PFloat (Finite 0)"
abbreviation f4 :: pynum where "f4 \<equiv> PFloat (Finite 4)"

section \<open>The ordered dictionary\<close>

text \<open>
  \<open>collections.OrderedDict\<close> keeps its items in insertion order. It is a list of
  (key, value) pairs. \<open>d[k] = v\<close> replaces the value of a key that is present, where
  it stands, and appends a new key at the end.
\<close>

fun od_setitem :: "'k \<Rightarrow> 'v \<Rightarrow> ('k \<times> 'v) list \<Rightarrow> ('k \<times> 'v) list" where
  "od_setitem k v [] = [(k, v)]"
| "od_setitem k v ((k', v') # kvs) =
     (if k' = k then (k', v) # kvs else (k', v') # od_setitem k v kvs)"

text \<open>\<open>d[k]\<close> raises \<open>KeyError\<close> on a missing key.\<close>

fun od_getitem :: "('k \<times> 'v) list \<Rightarrow> 'k \<Rightarrow> pyerr + 'v" where
  "od_getitem [] k = Inl KeyError"
| "od_getitem ((k', v) # kvs) k = (if k' = k then Inr v else od_getitem kvs k)"

definition od_keys :: "('k \<times> 'v) list \<Rightarrow> 'k list" where
  "od_keys kvs = map fst kvs"

definition od_values :: "('k \<times> 'v) list \<Rightarrow> 'v list" where
  "od_values kvs = map snd kvs"

section \<open>The student record\<close>

text \<open>
  Both variants keep a name, a number (always text) and the ordered dictionary of
  courses. Course codes are text; the stored grades are numbers. The advanced variant
  checks both on entry; the base variant checks nothing and is modelled on the values
  its own computations (\<open>sum\<close>, \<open>grade > 0.0\<close>) accept.
  \<open>ScholarshipStudent\<close> is a subclass: a record extension.
\<close>

record student =
  name :: string
  number :: string
  courses :: "(string \<times> pynum) list"

record scholarship_student = student +
  scholarship_amount :: pynum

section \<open>addGrade\<close>

text \<open>Base variant (\<^verbatim>\<open>lab6a.py\<close>, line 18): \<open>self.courses[course] = grade\<close>.\<close>

definition addGrade :: "'a student_scheme \<Rightarrow> string \<Rightarrow> pynum \<Rightarrow> 'a student_scheme" where
  "addGrade s course grade = s\<lparr>courses := od_setitem course grade (courses s)\<rparr>"

text \<open>
  Advanced variant (\<^verbatim>\<open>lab6a_advanced.py\<close>, line 80). The two checks run in the order
  of the source, the course first: \<open>isinstance(course, str)\<close> holds of a \<open>PStr\<close> only,
  \<open>isinstance(grade, (int, float))\<close> of a \<open>PNum\<close> only, and \<open>0.0 <= grade <= 4.0\<close> is
  the conjunction of its two comparisons. The result pairs the outcome (the exception
  raised, or \<open>None\<close> returned) with the state after the call. The lock and the log line
  have no effect on the record.
\<close>

definition grade_in_range :: "pynum \<Rightarrow> bool" where
  "grade_in_range g = (py_le f0 g \<and> py_le g f4)"

definition addGrade_adv ::
  "'a student_scheme \<Rightarrow> pyval \<Rightarrow> pyval \<Rightarrow> (pyerr + unit) \<times> 'a student_scheme" where
  "addGrade_adv s course grade =
     (case course of
        PStr c \<Rightarrow>
          if length c < 3 then (Inl InvalidCourseError, s)
          else (case grade of
                  PNum g \<Rightarrow>
                    if \<not> grade_in_range g then (Inl InvalidGradeError, s)
                    else (Inr (), s\<lparr>courses := od_setitem c g (courses s)\<rparr>)
                | _ \<Rightarrow> (Inl InvalidGradeError, s))
      | _ \<Rightarrow> (Inl InvalidCourseError, s))"

text \<open>A sequence of calls, each on the state the one before left.\<close>

definition addGrades :: "'a student_scheme \<Rightarrow> (string \<times> pynum) list \<Rightarrow> 'a student_scheme" where
  "addGrades s calls = foldl (\<lambda>s (c, g). addGrade s c g) s calls"

definition addGrades_adv :: "'a student_scheme \<Rightarrow> (pyval \<times> pyval) list \<Rightarrow> 'a student_scheme" where
  "addGrades_adv s calls = foldl (\<lambda>s (c, g). snd (addGrade_adv s c g)) s calls"

section \<open>Text and floating-point operations\<close>

text \<open>
  \<open>str\<close> of an \<open>int\<close>: its decimal digits, after a minus sign when negative.
  CPython refuses the conversion with \<open>ValueError\<close> when the integer has more than
  4300 digits (the default of \<open>sys.get_int_max_str_digits()\<close>, which neither program
  changes); the sign does not count.
\<close>

definition digit_char :: "nat \<Rightarrow> char" where
  "digit_char d = ''0123456789'' ! d"

fun str_nat :: "nat \<Rightarrow> string" where
  "str_nat n = (if n < 10 then [digit_char n] else str_nat (n div 10) @ [digit_char (n mod 10)])"

declare str_nat.simps [simp del]

definition str_int :: "int \<Rightarrow> string" where
  "str_int i = (if i < 0 then CHR ''-'' # str_nat (nat (- i)) else str_nat (nat i))"

definition int_max_str_digits :: nat where
  "int_max_str_digits = 4300"

definition py_str_int :: "int \<Rightarrow> pyerr + string" where
  "py_str_int i =
     (if int_max_str_digits < length (str_nat (nat \<bar>i\<bar>)) then Inl ValueError
      else Inr (str_int i))"

text \<open>
  The operations that round, print or read a double are parameters of the model: the
  sum of the grades, the true division by the number of courses, the fixed-point
  format \<open>.nf\<close>, \<open>str\<close> of a float and \<open>float\<close> of a text. Every theorem below
  holds for each choice of them.
\<close>

record float_ops =
  fl_sum :: "pynum list \<Rightarrow> pynum"
  fl_truediv :: "pynum \<Rightarrow> nat \<Rightarrow> pynum"
  fl_format :: "nat \<Rightarrow> pynum \<Rightarrow> string"
  fl_str :: "pyfloat \<Rightarrow> string"
  fl_float :: "string \<Rightarrow> pyerr + pynum"

fun py_str :: "float_ops \<Rightarrow> pyval \<Rightarrow> pyerr + string" where
  "py_str F (PStr t) = Inr t"
| "py_str F PNone = Inr ''None''"
| "py_str F (PNum (PBool b)) = Inr (if b then ''True'' else ''False'')"
| "py_str F (PNum (PInt i)) = py_str_int i"
| "py_str F (PNum (PFloat x)) = Inr (fl_str F x)"

text \<open>\<open>text.split()\<close>: the maximal runs of characters that are not whitespace.\<close>

definition is_space :: "char \<Rightarrow> bool" where
  "is_space c = (c \<in> set [CHR '' '', CHR 0x09, CHR 0x0A, CHR 0x0B, CHR 0x0C, CHR 0x0D,
                          CHR 0x1C, CHR 0x1D, CHR 0x1E, CHR 0x1F])"

fun split_from :: "string \<Rightarrow> string \<Rightarrow> string list" where
  "split_from w [] = (if w = [] then [] else [w])"
| "split_from w (c # cs) =
     (if is_space c then (if w = [] then split_from [] cs else w # split_from [] cs)
      else split_from (w @ [c]) cs)"

definition py_split :: "string \<Rightarrow> string list" where
  "py_split t = split_from [] t"

section \<open>Construction\<close>

text \<open>
  Base variant, \<open>__init__\<close> (line 8): no check; the number is stored as the text
  \<open>str\<close> makes of it.
\<close>

definition Student_init :: "float_ops \<Rightarrow> string \<Rightarrow> pyval \<Rightarrow> pyerr + student" where
  "Student_init F nm num =
     (case py_str F num of
        Inl e \<Rightarrow> Inl e
      | Inr t \<Rightarrow> Inr \<lparr>name = nm, number = t, courses = []\<rparr>)"

text \<open>
  Advanced variant, \<open>__init__\<close> (line 56): the name must be a \<open>str\<close> and the number an
  \<open>int\<close> (a \<open>bool\<close> is one) or a \<open>str\<close>.
\<close>

definition isinstance_int_str :: "pyval \<Rightarrow> bool" where
  "isinstance_int_str v =
     (case v of PStr _ \<Rightarrow> True | PNum (PBool _) \<Rightarrow> True | PNum (PInt _) \<Rightarrow> True | _ \<Rightarrow> False)"

definition Student_init_adv :: "float_ops \<Rightarrow> pyval \<Rightarrow> pyval \<Rightarrow> pyerr + student" where
  "Student_init_adv F nm num =
     (case nm of
        PStr n \<Rightarrow>
          if \<not> isinstance_int_str num then Inl TypeError
          else (case py_str F num of
                  Inl e \<Rightarrow> Inl e
                | Inr t \<Rightarrow> Inr \<lparr>name = n, number = t, courses = []\<rparr>)
      | _ \<Rightarrow> Inl TypeError)"

text \<open>
  \<open>ScholarshipStudent.__init__\<close> (line 130): the checks of the superclass, then the
  amount, which \<open><\<close> compares with the \<open>int\<close> 0; a value that is not a number has no
  such comparison.
\<close>

definition ScholarshipStudent_init ::
  "float_ops \<Rightarrow> pyval \<Rightarrow> pyval \<Rightarrow> pyval \<Rightarrow> pyerr + scholarship_student" where
  "ScholarshipStudent_init F nm num amount =
     (case Student_init_adv F nm num of
        Inl e \<Rightarrow> Inl e
      | Inr s \<Rightarrow>
          (case amount of
             PNum a \<Rightarrow>
               if py_lt a (PInt 0) then Inl ValueError
               else Inr \<lparr>name = name s, number = number s, courses = courses s,
                         scholarship_amount = a\<rparr>
           | _ \<Rightarrow> Inl TypeError))"

text \<open>
  Calling a class of the advanced variant runs \<open>StudentMeta.__call__\<close> (line 38): the
  instance is made by \<open>__init__\<close> and then handed to \<open>weakref.finalize\<close>, which takes a
  weak reference to it. \<open>Student\<close> declares \<open>__slots__\<close> (line 54) without
  \<open>__weakref__\<close>, so its own instances admit no weak reference and the call raises
  \<open>TypeError\<close>; the subclass declares no slots and its instances do. The registry of
  finalizers is not part of the record.
\<close>

datatype pyclass = Student | ScholarshipStudent

fun supports_weakref :: "pyclass \<Rightarrow> bool" where
  "supports_weakref Student = False"
| "supports_weakref ScholarshipStudent = True"

definition StudentMeta_call :: "pyclass \<Rightarrow> pyerr + 'r \<Rightarrow> pyerr + 'r" where
  "StudentMeta_call cls made =
     (case made of
        Inl e \<Rightarrow> Inl e
      | Inr instance \<Rightarrow> if supports_weakref cls then Inr instance else Inl TypeError)"

definition new_Student :: "float_ops \<Rightarrow> pyval \<Rightarrow> pyval \<Rightarrow> pyerr + student" where
  "new_Student F nm num = StudentMeta_call Student (Student_init_adv F nm num)"

definition new_ScholarshipStudent ::
  "float_ops \<Rightarrow> pyval \<Rightarrow> pyval \<Rightarrow> pyval \<Rightarrow> pyerr + scholarship_student" where
  "new_ScholarshipStudent F nm num amount =
     StudentMeta_call ScholarshipStudent (ScholarshipStudent_init F nm num amount)"

section \<open>displayGPA\<close>

text \<open>Base variant (line 22): computed anew at every call.\<close>

definition displayGPA :: "float_ops \<Rightarrow> 'a student_scheme \<Rightarrow> string" where
  "displayGPA F s =
     (if length (courses s) = 0 then ''GPA of student '' @ name s @ '' is 0.0''
      else (let gpa = fl_truediv F (fl_sum F (od_values (courses s))) (length (courses s))
            in ''GPA of student '' @ name s @ '' is '' @ fl_format F 1 gpa))"

text \<open>
  Advanced variant (line 91). The body is as in the base variant, with two decimals.
  It is wrapped by \<open>functools.lru_cache\<close>, which looks the arguments of the call, here
  \<open>self\<close> alone, up in a dictionary and therefore hashes them before the body runs.
  The class defines \<open>__eq__\<close> (line 117) and no \<open>__hash__\<close>; Python then sets
  \<open>__hash__\<close> to \<open>None\<close> for the class and its subclass, and hashing an instance raises
  \<open>TypeError\<close>. What the cache would hold behind a successful hash is never reached.
\<close>

definition displayGPA_body :: "float_ops \<Rightarrow> 'a student_scheme \<Rightarrow> string" where
  "displayGPA_body F s =
     (if courses s = [] then ''GPA of student '' @ name s @ '' is 0.0''
      else (let gpa = fl_truediv F (fl_sum F (od_values (courses s))) (length (courses s))
            in ''GPA of student '' @ name s @ '' is '' @ fl_format F 2 gpa))"

definition Student_hash :: "'a student_scheme \<Rightarrow> pyerr + int" where
  "Student_hash s = Inl TypeError"

definition lru_cache_call :: "('x \<Rightarrow> pyerr + int) \<Rightarrow> ('x \<Rightarrow> 'r) \<Rightarrow> 'x \<Rightarrow> pyerr + 'r" where
  "lru_cache_call hash_of body x = (case hash_of x of Inl e \<Rightarrow> Inl e | Inr h \<Rightarrow> Inr (body x))"

definition displayGPA_adv :: "float_ops \<Rightarrow> 'a student_scheme \<Rightarrow> pyerr + string" where
  "displayGPA_adv F s = lru_cache_call Student_hash (displayGPA_body F) s"

text \<open>\<open>isEligible\<close> (line 136): the last word of the GPA text, read as a float.\<close>

definition isEligible :: "float_ops \<Rightarrow> scholarship_student \<Rightarrow> pyerr + bool" where
  "isEligible F s =
     (case displayGPA_adv F s of
        Inl e \<Rightarrow> Inl e
      | Inr txt \<Rightarrow>
          (case py_split txt of
             [] \<Rightarrow> Inl IndexError
           | w # ws \<Rightarrow>
               (case fl_float F (last (w # ws)) of
                  Inl e \<Rightarrow> Inl e
                | Inr x \<Rightarrow> Inr (py_gt x (PFloat (Finite (7 / 2)))))))"

section \<open>displayCourses\<close>

text \<open>Base variant (line 30): the comprehension runs over the items in their order.\<close>

definition displayCourses :: "'a student_scheme \<Rightarrow> string list" where
  "displayCourses s = [course. (course, grade) \<leftarrow> courses s, py_gt grade f0]"

text \<open>
  \<open>sorted(xs, key=f)\<close> computes the key of every element first, then sorts stably,
  comparing keys with \<open><\<close> only. On keys that \<open><\<close> orders totally every stable sort
  returns the same list; it is written here as insertion from the right.
\<close>

fun map_result :: "('a \<Rightarrow> pyerr + 'b) \<Rightarrow> 'a list \<Rightarrow> pyerr + 'b list" where
  "map_result f [] = Inr []"
| "map_result f (x # xs) =
     (case f x of
        Inl e \<Rightarrow> Inl e
      | Inr y \<Rightarrow> (case map_result f xs of Inl e \<Rightarrow> Inl e | Inr ys \<Rightarrow> Inr (y # ys)))"

fun insort_keyed :: "pynum \<times> 'a \<Rightarrow> (pynum \<times> 'a) list \<Rightarrow> (pynum \<times> 'a) list" where
  "insort_keyed x [] = [x]"
| "insort_keyed x (y # ys) =
     (if py_lt (fst y) (fst x) then y # insort_keyed x ys else x # y # ys)"

definition py_sorted :: "('a \<Rightarrow> pyerr + pynum) \<Rightarrow> 'a list \<Rightarrow> pyerr + 'a list" where
  "py_sorted key xs =
     (case map_result key xs of
        Inl e \<Rightarrow> Inl e
      | Inr ks \<Rightarrow> Inr (map snd (foldr insort_keyed (zip ks xs) [])))"

text \<open>Advanced variant (line 100): the same comprehension, sorted by \<open>-self._courses[x]\<close>.\<close>

definition neg_grade :: "'a student_scheme \<Rightarrow> string \<Rightarrow> pyerr + pynum" where
  "neg_grade s x = (case od_getitem (courses s) x of Inl e \<Rightarrow> Inl e | Inr g \<Rightarrow> Inr (py_neg g))"

definition displayCourses_adv :: "'a student_scheme \<Rightarrow> pyerr + string list" where
  "displayCourses_adv s =
     py_sorted (neg_grade s) [course. (course, grade) \<leftarrow> courses s, py_gt grade f0]"

section \<open>Membership and equality\<close>

text \<open>\<open>__contains__\<close> (line 109): membership in the dictionary; its keys are all text.\<close>

definition Student_contains :: "'a student_scheme \<Rightarrow> pyval \<Rightarrow> bool" where
  "Student_contains s course =
     (case course of PStr c \<Rightarrow> c \<in> set (od_keys (courses s)) | _ \<Rightarrow> False)"

text \<open>\<open>__eq__\<close> (line 117).\<close>

definition Student_eq :: "'a student_scheme \<Rightarrow> 'b student_scheme \<Rightarrow> bool" where
  "Student_eq self other = (name self = name other \<and> number self = number other)"

section \<open>Properties of the ordered dictionary\<close>

lemma od_setitem_keys_present:
  "k \<in> set (od_keys kvs) \<Longrightarrow> od_keys (od_setitem k v kvs) = od_keys kvs"
  by (induction kvs) (force simp: od_keys_def)+

lemma od_setitem_keys_absent:
  "k \<notin> set (od_keys kvs) \<Longrightarrow> od_keys (od_setitem k v kvs) = od_keys kvs @ [k]"
  by (induction kvs) (auto simp: od_keys_def)

lemma od_getitem_setitem_same: "od_getitem (od_setitem k v kvs) k = Inr v"
  by (induction kvs) auto

lemma od_getitem_setitem_other:
  "k' \<noteq> k \<Longrightarrow> od_getitem (od_setitem k v kvs) k' = od_getitem kvs k'"
  by (induction kvs) auto

lemma od_setitem_distinct:
  "distinct (od_keys kvs) \<Longrightarrow> distinct (od_keys (od_setitem k v kvs))"
  by (cases "k \<in> set (od_keys kvs)")
     (simp_all add: od_setitem_keys_present od_setitem_keys_absent)

section \<open>Properties of addGrade\<close>

lemma grade_in_range_Finite [simp]:
  "grade_in_range (PFloat (Finite r)) \<longleftrightarrow> 0 \<le> r \<and> r \<le> 4"
  by (auto simp: grade_in_range_def py_le_def py_lt_def py_eq_def)

lemma grade_in_range_PInt [simp]: "grade_in_range (PInt i) \<longleftrightarrow> 0 \<le> i \<and> i \<le> 4"
  by (auto simp: grade_in_range_def py_le_def py_lt_def py_eq_def)

lemma grade_in_range_PBool [simp]: "grade_in_range (PBool b)"
  by (simp add: grade_in_range_def py_le_def py_lt_def py_eq_def)

lemma grade_in_range_special [simp]:
  "\<not> grade_in_range (PFloat NaN)" "\<not> grade_in_range (PFloat PosInf)"
  "\<not> grade_in_range (PFloat NegInf)"
  by (simp_all add: grade_in_range_def py_le_def py_lt_def py_eq_def)

lemma addGrade_adv_accepted:
  "3 \<le> length c \<Longrightarrow> grade_in_range g \<Longrightarrow>
   addGrade_adv s (PStr c) (PNum g) = (Inr (), s\<lparr>courses := od_setitem c g (courses s)\<rparr>)"
  by (simp add: addGrade_adv_def)

lemma addGrade_adv_accepts_iff:
  "fst (addGrade_adv s course grade) = Inr () \<longleftrightarrow>
   (\<exists>c g. course = PStr c \<and> 3 \<le> length c \<and> grade = PNum g \<and> grade_in_range g)"
  by (auto simp: addGrade_adv_def split: pyval.splits)

lemma addGrade_adv_rejected_state:
  "fst (addGrade_adv s course grade) \<noteq> Inr () \<Longrightarrow> snd (addGrade_adv s course grade) = s"
  by (auto simp: addGrade_adv_def split: pyval.splits if_splits)

lemma addGrade_adv_keys_distinct:
  "distinct (od_keys (courses s)) \<Longrightarrow>
   distinct (od_keys (courses (snd (addGrade_adv s course grade))))"
  by (auto simp: addGrade_adv_def od_setitem_distinct split: pyval.splits)

lemma addGrades_distinct:
  "distinct (od_keys (courses s)) \<Longrightarrow> distinct (od_keys (courses (addGrades s calls)))"
  unfolding addGrades_def
  by (induction calls arbitrary: s) (auto simp: addGrade_def od_setitem_distinct)

lemma addGrades_adv_distinct:
  "distinct (od_keys (courses s)) \<Longrightarrow> distinct (od_keys (courses (addGrades_adv s calls)))"
  unfolding addGrades_adv_def
  by (induction calls arbitrary: s) (auto simp: addGrade_adv_keys_distinct)

section \<open>Claims on addGrade\<close>

text \<open>
  Claim C6. Adding a grade for a course that is already present overwrites the stored
  grade and leaves the enumeration of the courses, hence the position of that course
  and the grades of the others, as it was. This holds of the base variant for every
  grade, and of the advanced variant for every call that passes its checks. After
  every sequence of calls, accepted or not, on a record whose keys are pairwise
  different (a fresh record above all), the keys are pairwise different.
\<close>

theorem C6_addGrade_overwrites_in_place:
  "(c \<in> set (od_keys (courses s)) \<longrightarrow>
       od_keys (courses (addGrade s c g)) = od_keys (courses s)
     \<and> od_getitem (courses (addGrade s c g)) c = Inr g
     \<and> (\<forall>k. k \<noteq> c \<longrightarrow> od_getitem (courses (addGrade s c g)) k = od_getitem (courses s) k))
 \<and> (c \<in> set (od_keys (courses s)) \<and> 3 \<le> length c \<and> grade_in_range g \<longrightarrow>
       fst (addGrade_adv s (PStr c) (PNum g)) = Inr ()
     \<and> od_keys (courses (snd (addGrade_adv s (PStr c) (PNum g)))) = od_keys (courses s)
     \<and> od_getitem (courses (snd (addGrade_adv s (PStr c) (PNum g)))) c = Inr g
     \<and> (\<forall>k. k \<noteq> c \<longrightarrow>
           od_getitem (courses (snd (addGrade_adv s (PStr c) (PNum g)))) k
           = od_getitem (courses s) k))
 \<and> (distinct (od_keys (courses s)) \<longrightarrow>
       distinct (od_keys (courses (addGrades s calls)))
     \<and> distinct (od_keys (courses (addGrades_adv s calls'))))"
  by (simp add: addGrade_def addGrade_adv_accepted od_setitem_keys_present
      od_getitem_setitem_same od_getitem_setitem_other addGrades_distinct addGrades_adv_distinct)

theorem C6_witness:
  "''ops445'' \<in> set (od_keys [(''ops445'', PFloat (Finite 3)), (''ops245'', PFloat (Finite 2))])
 \<and> 3 \<le> length ''ops445'' \<and> grade_in_range f4
 \<and> distinct (od_keys [(''ops445'', PFloat (Finite 3)), (''ops245'', PFloat (Finite 2))])
 \<and> od_keys (courses (addGrade
      \<lparr>name = ''John'', number = ''013454900'',
       courses = [(''ops445'', PFloat (Finite 3)), (''ops245'', PFloat (Finite 2))]\<rparr>
      ''ops445'' f4)) = [''ops445'', ''ops245'']
 \<and> od_getitem (courses (snd (addGrade_adv
      \<lparr>name = ''John'', number = ''013454900'',
       courses = [(''ops445'', PFloat (Finite 3)), (''ops245'', PFloat (Finite 2))]\<rparr>
      (PStr ''ops445'') (PNum f4)))) ''ops445'' = Inr f4
 \<and> distinct (od_keys (courses (addGrades
      \<lparr>name = ''John'', number = ''013454900'',
       courses = [(''ops445'', PFloat (Finite 3)), (''ops245'', PFloat (Finite 2))]\<rparr>
      [(''uli101'', PFloat (Finite 1)), (''ops445'', f0)])))"
  using C6_addGrade_overwrites_in_place [of "''ops445''"
      "\<lparr>name = ''John'', number = ''013454900'',
        courses = [(''ops445'', PFloat (Finite 3)), (''ops245'', PFloat (Finite 2))]\<rparr>"
      f4 "[(''uli101'', PFloat (Finite 1)), (''ops445'', f0)]" "[]"]
  by (simp add: od_keys_def)

text \<open>
  Claim C2. In the advanced variant \<open>addGrade\<close> raises \<open>InvalidCourseError\<close> when
  the course text has fewer than 3 characters, whatever the grade; it raises
  \<open>InvalidGradeError\<close> for a grade outside [0.0, 4.0], the course having passed its
  check, which the source runs first; and every call that raises leaves the record
  as it was.
\<close>

theorem C2_addGrade_adv_rejects:
  "(length c < 3 \<longrightarrow> addGrade_adv s (PStr c) grade = (Inl InvalidCourseError, s))
 \<and> (3 \<le> length c \<and> \<not> grade_in_range g \<longrightarrow>
       addGrade_adv s (PStr c) (PNum g) = (Inl InvalidGradeError, s))
 \<and> (fst (addGrade_adv s course grade') \<noteq> Inr () \<longrightarrow>
       snd (addGrade_adv s course grade') = s)"
  using addGrade_adv_rejected_state [of s course grade']
  by (simp add: addGrade_adv_def)

theorem C2_witness:
  "length ''ab'' < 3 \<and> 3 \<le> length ''ops445'' \<and> \<not> grade_in_range (PFloat (Finite (9 / 2)))
 \<and> addGrade_adv \<lparr>name = ''John'', number = ''013454900'', courses = [(''ops245'', f4)]\<rparr>
      (PStr ''ab'') (PNum f4)
    = (Inl InvalidCourseError,
       \<lparr>name = ''John'', number = ''013454900'', courses = [(''ops245'', f4)]\<rparr>)
 \<and> addGrade_adv \<lparr>name = ''John'', number = ''013454900'', courses = [(''ops245'', f4)]\<rparr>
      (PStr ''ops445'') (PNum (PFloat (Finite (9 / 2))))
    = (Inl InvalidGradeError,
       \<lparr>name = ''John'', number = ''013454900'', courses = [(''ops245'', f4)]\<rparr>)
 \<and> fst (addGrade_adv \<lparr>name = ''John'', number = ''013454900'', courses = [(''ops245'', f4)]\<rparr>
      PNone (PNum f4)) \<noteq> Inr ()
 \<and> snd (addGrade_adv \<lparr>name = ''John'', number = ''013454900'', courses = [(''ops245'', f4)]\<rparr>
      PNone (PNum f4))
    = \<lparr>name = ''John'', number = ''013454900'', courses = [(''ops245'', f4)]\<rparr>"
  using C2_addGrade_adv_rejects [of "''ab''"
      "\<lparr>name = ''John'', number = ''013454900'', courses = [(''ops245'', f4)]\<rparr>" "PNum f4"]
    C2_addGrade_adv_rejects [of "''ops445''"
      "\<lparr>name = ''John'', number = ''013454900'', courses = [(''ops245'', f4)]\<rparr>" "PNum f4"
      "PFloat (Finite (9 / 2))" PNone "PNum f4"]
  by (simp add: addGrade_adv_def)

text \<open>
  Claim C10. In the advanced variant \<open>addGrade\<close> raises \<open>InvalidCourseError\<close> for
  every course that is not a string, whatever the grade; it raises
  \<open>InvalidGradeError\<close> for every grade that is not a number, the course having passed
  its check, which the source runs first; in both cases the record is left as it was.
\<close>

theorem C10_addGrade_adv_type_checks:
  "((\<forall>c. course \<noteq> PStr c) \<longrightarrow> addGrade_adv s course grade = (Inl InvalidCourseError, s))
 \<and> (3 \<le> length c \<and> (\<forall>g. grade' \<noteq> PNum g) \<longrightarrow>
       addGrade_adv s (PStr c) grade' = (Inl InvalidGradeError, s))"
  by (auto simp: addGrade_adv_def split: pyval.splits)

theorem C10_witness:
  "(\<forall>c. PNum (PInt 445) \<noteq> PStr c) \<and> 3 \<le> length ''ops445'' \<and> (\<forall>g. PStr ''A+'' \<noteq> PNum g)
 \<and> addGrade_adv \<lparr>name = ''John'', number = ''013454900'', courses = [(''ops245'', f4)]\<rparr>
      (PNum (PInt 445)) (PNum f4)
    = (Inl InvalidCourseError,
       \<lparr>name = ''John'', number = ''013454900'', courses = [(''ops245'', f4)]\<rparr>)
 \<and> addGrade_adv \<lparr>name = ''John'', number = ''013454900'', courses = [(''ops245'', f4)]\<rparr>
      (PStr ''ops445'') (PStr ''A+'')
    = (Inl InvalidGradeError,
       \<lparr>name = ''John'', number = ''013454900'', courses = [(''ops245'', f4)]\<rparr>)"
  using C10_addGrade_adv_type_checks [of "PNum (PInt 445)"
      "\<lparr>name = ''John'', number = ''013454900'', courses = [(''ops245'', f4)]\<rparr>" "PNum f4"
      "''ops445''" "PStr ''A+''"]
  by simp

section \<open>Properties of the comparisons\<close>

lemma num_val_py_neg: "num_val (py_neg g) = float_neg (num_val g)"
  by (cases g) auto

lemma py_lt_negtrans: "num_val y \<noteq> NaN \<Longrightarrow> py_lt z x \<Longrightarrow> py_lt z y \<or> py_lt y x"
  unfolding py_lt_def
  by (cases "num_val x"; cases "num_val y"; cases "num_val z") auto

lemma py_lt_asym: "py_lt a b \<Longrightarrow> \<not> py_lt b a"
  unfolding py_lt_def
  by (cases "num_val a"; cases "num_val b") auto

lemma py_gt_f0_not_NaN: "py_gt g f0 \<Longrightarrow> num_val g \<noteq> NaN"
  by (auto simp: py_gt_def py_lt_def)

lemma py_eq_f0_not_gt: "py_eq g f0 \<Longrightarrow> \<not> py_gt g f0"
  unfolding py_eq_def py_gt_def py_lt_def
  by (cases "num_val g") auto

lemma neg_keys_descending:
  "num_val a \<noteq> NaN \<Longrightarrow> num_val b \<noteq> NaN \<Longrightarrow> \<not> py_lt (py_neg b) (py_neg a) \<Longrightarrow> py_ge a b"
  unfolding py_ge_def py_le_def py_lt_def py_eq_def num_val_py_neg
  by (cases "num_val a"; cases "num_val b") auto

section \<open>Properties of displayCourses\<close>

lemma comprehension_filter:
  "[c. (c, g) \<leftarrow> kvs, P g] = map fst (filter (\<lambda>(c, g). P g) kvs)"
  by (induction kvs) auto

lemma displayCourses_filter:
  "displayCourses s = map fst (filter (\<lambda>(c, g). py_gt g f0) (courses s))"
  by (simp add: displayCourses_def comprehension_filter)

lemma od_getitem_distinct:
  "distinct (od_keys kvs) \<Longrightarrow> (c, g) \<in> set kvs \<Longrightarrow> od_getitem kvs c = Inr g"
  by (induction kvs) (force simp: od_keys_def)+

lemma od_getitem_absent:
  "c \<notin> set (od_keys kvs) \<Longrightarrow> od_getitem kvs c = Inl KeyError"
  by (induction kvs) (auto simp: od_keys_def)

lemma od_getitem_Inr_mem: "od_getitem kvs c = Inr g \<Longrightarrow> (c, g) \<in> set kvs"
  by (induction kvs) (auto split: if_splits)

lemma map_result_Inr:
  "(\<And>x. x \<in> set xs \<Longrightarrow> f x = Inr (h x)) \<Longrightarrow> map_result f xs = Inr (map h xs)"
  by (induction xs) auto

text \<open>
  The sort returns a permutation, and a list in which no key is less than one before
  it, provided no key is NaN (on NaN \<open><\<close> is no order).
\<close>

lemma mset_insort_keyed: "mset (insort_keyed x ys) = add_mset x (mset ys)"
  by (induction ys) auto

lemma mset_foldr_insort_keyed: "mset (foldr insort_keyed ps []) = mset ps"
  by (induction ps) (auto simp: mset_insort_keyed)

lemma set_insort_keyed: "set (insort_keyed x ys) = insert x (set ys)"
  using mset_insort_keyed [of x ys, THEN arg_cong, of set_mset] by simp

lemma sorted_insort_keyed:
  "(\<And>p. p \<in> set ys \<Longrightarrow> num_val (fst p) \<noteq> NaN) \<Longrightarrow>
   sorted_wrt (\<lambda>p q. \<not> py_lt (fst q) (fst p)) ys \<Longrightarrow>
   sorted_wrt (\<lambda>p q. \<not> py_lt (fst q) (fst p)) (insort_keyed x ys)"
proof (induction ys)
  case Nil
  then show ?case by simp
next
  case (Cons y ys)
  show ?case
  proof (cases "py_lt (fst y) (fst x)")
    case True
    then have "\<not> py_lt (fst x) (fst y)" by (rule py_lt_asym)
    with True Cons show ?thesis by (auto simp: set_insort_keyed)
  next
    case False
    have y: "num_val (fst y) \<noteq> NaN" using Cons.prems(1) by simp
    have "\<not> py_lt (fst z) (fst x)" if "z \<in> set ys" for z
    proof
      assume "py_lt (fst z) (fst x)"
      with y have "py_lt (fst z) (fst y) \<or> py_lt (fst y) (fst x)" by (rule py_lt_negtrans)
      with False that Cons.prems(2) show False by auto
    qed
    with False Cons.prems(2) show ?thesis by auto
  qed
qed

lemma sorted_foldr_insort_keyed:
  "(\<And>p. p \<in> set ps \<Longrightarrow> num_val (fst p) \<noteq> NaN) \<Longrightarrow>
   sorted_wrt (\<lambda>p q. \<not> py_lt (fst q) (fst p)) (foldr insort_keyed ps [])"
proof (induction ps)
  case Nil
  then show ?case by simp
next
  case (Cons p ps)
  have "set (foldr insort_keyed ps []) = set ps"
    using mset_foldr_insort_keyed [of ps, THEN arg_cong, of set_mset] by simp
  with Cons show ?case by (auto intro!: sorted_insort_keyed)
qed


lemma passed_getitem:
  assumes "distinct (od_keys kvs)" "x \<in> set (map fst (filter (\<lambda>(c, g). py_gt g f0) kvs))"
  shows "\<exists>g. od_getitem kvs x = Inr g \<and> py_gt g f0"
proof -
  from assms(2) obtain g where "(x, g) \<in> set kvs" "py_gt g f0" by auto
  with assms(1) show ?thesis by (auto dest: od_getitem_distinct)
qed

text \<open>
  On a dictionary with pairwise different keys the advanced listing never raises: each
  course it sorts has a grade, greater than 0.0 and so no NaN.
\<close>

lemma displayCourses_adv_sorted:
  assumes d: "distinct (od_keys (courses s))"
  shows "\<exists>cs gs. displayCourses_adv s = Inr cs \<and> mset cs = mset (displayCourses s)
           \<and> map_result (od_getitem (courses s)) cs = Inr gs \<and> sorted_wrt py_ge gs"
proof -
  define kvs where "kvs = courses s"
  define xs where "xs = map fst (filter (\<lambda>(c, g). py_gt g f0) kvs)"
  define G where "G = (\<lambda>x. case od_getitem kvs x of Inr g \<Rightarrow> g | Inl e \<Rightarrow> f0)"
  define ps where "ps = foldr insort_keyed (zip (map (\<lambda>x. py_neg (G x)) xs) xs) []"
  have G: "od_getitem kvs x = Inr (G x) \<and> py_gt (G x) f0" if "x \<in> set xs" for x
    using passed_getitem [of kvs x] d that by (auto simp: kvs_def xs_def G_def)
  have xs: "displayCourses s = xs"
    by (simp add: displayCourses_filter xs_def kvs_def)
  have keys: "map_result (neg_grade s) xs = Inr (map (\<lambda>x. py_neg (G x)) xs)"
    by (rule map_result_Inr) (simp add: neg_grade_def G kvs_def [symmetric])
  have res: "displayCourses_adv s = Inr (map snd ps)"
    using keys xs by (simp add: displayCourses_adv_def displayCourses_def py_sorted_def ps_def)
  have zipm: "zip (map (\<lambda>x. py_neg (G x)) xs) xs = map (\<lambda>x. (py_neg (G x), x)) xs"
    by (induction xs) auto
  have msps: "mset ps = mset (map (\<lambda>x. (py_neg (G x), x)) xs)"
    by (simp add: ps_def mset_foldr_insort_keyed zipm)
  then have setps: "set ps = (\<lambda>x. (py_neg (G x), x)) ` set xs"
    by (metis mset_eq_setD set_map)
  have "mset (map snd ps) = image_mset snd (mset (map (\<lambda>x. (py_neg (G x), x)) xs))"
    using msps by (metis mset_map)
  then have perm: "mset (map snd ps) = mset xs"
    by (simp add: image_mset.compositionality comp_def)
  have inps: "snd p \<in> set xs \<and> fst p = py_neg (G (snd p))" if "p \<in> set ps" for p
    using that setps by auto
  have nn: "num_val (fst p) \<noteq> NaN" if "p \<in> set (zip (map (\<lambda>x. py_neg (G x)) xs) xs)" for p
  proof -
    from that obtain x where "x \<in> set xs" "p = (py_neg (G x), x)" by (auto simp: zipm)
    with G [of x] show ?thesis
      by (cases "num_val (G x)") (auto simp: num_val_py_neg dest: py_gt_f0_not_NaN)
  qed
  have sorted_ps: "sorted_wrt (\<lambda>p q. \<not> py_lt (fst q) (fst p)) ps"
    unfolding ps_def by (rule sorted_foldr_insort_keyed) (rule nn)
  have "sorted_wrt (\<lambda>p q. py_ge (G (snd p)) (G (snd q))) ps"
  proof (rule sorted_wrt_mono_rel [OF _ sorted_ps])
    fix p q
    assume p: "p \<in> set ps" and q: "q \<in> set ps" and pq: "\<not> py_lt (fst q) (fst p)"
    from inps [OF p] inps [OF q] pq
    have "\<not> py_lt (py_neg (G (snd q))) (py_neg (G (snd p)))" by simp
    moreover have "num_val (G (snd p)) \<noteq> NaN" "num_val (G (snd q)) \<noteq> NaN"
      using inps [OF p] inps [OF q] G by (auto dest: py_gt_f0_not_NaN)
    ultimately show "py_ge (G (snd p)) (G (snd q))" by (simp add: neg_keys_descending)
  qed
  then have sg: "sorted_wrt py_ge (map G (map snd ps))"
    by (simp add: sorted_wrt_map)
  have "map_result (od_getitem kvs) (map snd ps) = Inr (map G (map snd ps))"
    by (rule map_result_Inr) (use inps G in auto)
  with res perm sg xs show ?thesis
    by (auto simp: kvs_def)
qed

lemma displayCourses_adv_set:
  assumes "distinct (od_keys (courses s))" "displayCourses_adv s = Inr cs"
  shows "set cs = set (displayCourses s)"
  using displayCourses_adv_sorted [OF assms(1)] assms(2) by (auto dest: mset_eq_setD)

lemma zero_grade_not_displayed:
  assumes "distinct (od_keys (courses s))" "(c, g) \<in> set (courses s)" "py_eq g f0"
  shows "c \<notin> set (displayCourses s)"
proof
  assume "c \<in> set (displayCourses s)"
  then obtain g' where g': "(c, g') \<in> set (courses s)" "py_gt g' f0"
    by (auto simp: displayCourses_filter)
  from assms(1) g'(1) assms(2) have "g' = g"
    by (metis od_getitem_distinct sum.inject(2))
  with g'(2) assms(3) show False by (simp add: py_eq_f0_not_gt)
qed


section \<open>Sequences of calls\<close>

lemma addGrades_snoc: "addGrades s (calls @ [(c, g)]) = addGrade (addGrades s calls) c g"
  by (simp add: addGrades_def)

lemma keys_addGrade:
  "od_keys (courses (addGrade s c g)) =
     (if c \<in> set (od_keys (courses s)) then od_keys (courses s) else od_keys (courses s) @ [c])"
  by (simp add: addGrade_def od_setitem_keys_present od_setitem_keys_absent)

lemma keys_addGrades:
  "courses s = [] \<Longrightarrow> od_keys (courses (addGrades s calls)) = rev (remdups (rev (map fst calls)))"
proof (induction calls rule: rev_induct)
  case Nil
  then show ?case by (simp add: addGrades_def od_keys_def)
next
  case (snoc x xs)
  obtain c g where x: "x = (c, g)" by (cases x)
  from snoc show ?case by (simp add: x addGrades_snoc keys_addGrade)
qed

lemma getitem_addGrades:
  "courses s = [] \<Longrightarrow>
   od_getitem (courses (addGrades s calls)) c =
     (case map_of (rev calls) c of None \<Rightarrow> Inl KeyError | Some g \<Rightarrow> Inr g)"
proof (induction calls rule: rev_induct)
  case Nil
  then show ?case by (simp add: addGrades_def)
next
  case (snoc x xs)
  obtain c' g where x: "x = (c', g)" by (cases x)
  from snoc show ?case
    by (cases "c = c'")
       (simp_all add: x addGrades_snoc addGrade_def od_getitem_setitem_same
          od_getitem_setitem_other)
qed

lemma passed_in_key_order:
  "distinct (od_keys kvs) \<Longrightarrow>
   map fst (filter (\<lambda>(c, g). P g) kvs) =
   filter (\<lambda>c. case od_getitem kvs c of Inr g \<Rightarrow> P g | Inl e \<Rightarrow> False) (od_keys kvs)"
proof (induction kvs)
  case Nil
  then show ?case by (simp add: od_keys_def)
next
  case (Cons kv kvs)
  obtain k v where kv: "kv = (k, v)" by (cases kv)
  from Cons.prems have k: "k \<notin> set (od_keys kvs)" and d: "distinct (od_keys kvs)"
    by (simp_all add: kv od_keys_def)
  have "filter (\<lambda>c. case od_getitem ((k, v) # kvs) c of Inr g \<Rightarrow> P g | Inl e \<Rightarrow> False) (od_keys kvs)
      = filter (\<lambda>c. case od_getitem kvs c of Inr g \<Rightarrow> P g | Inl e \<Rightarrow> False) (od_keys kvs)"
    using k by (intro filter_cong) auto
  with Cons.IH [OF d] show ?case by (simp add: kv od_keys_def)
qed

lemma displayCourses_insertion_order:
  assumes "courses s = []"
  shows "displayCourses (addGrades s calls) =
     filter (\<lambda>c. case map_of (rev calls) c of Some g \<Rightarrow> py_gt g f0 | None \<Rightarrow> False)
       (rev (remdups (rev (map fst calls))))"
proof -
  have d: "distinct (od_keys (courses (addGrades s calls)))"
    by (rule addGrades_distinct) (simp add: assms od_keys_def)
  have "displayCourses (addGrades s calls) =
      filter (\<lambda>c. case od_getitem (courses (addGrades s calls)) c of
                    Inr g \<Rightarrow> py_gt g f0 | Inl e \<Rightarrow> False)
        (od_keys (courses (addGrades s calls)))"
    by (simp add: displayCourses_filter passed_in_key_order [OF d])
  also have "\<dots> = filter (\<lambda>c. case map_of (rev calls) c of Some g \<Rightarrow> py_gt g f0 | None \<Rightarrow> False)
       (rev (remdups (rev (map fst calls))))"
    unfolding keys_addGrades [OF assms] getitem_addGrades [OF assms]
    by (intro filter_cong) (auto split: option.splits)
  finally show ?thesis .
qed

lemma contains_addGrade_adv:
  "Student_contains (snd (addGrade_adv s course grade)) x \<longleftrightarrow>
     Student_contains s x \<or> (x = course \<and> fst (addGrade_adv s course grade) = Inr ())"
proof (cases "fst (addGrade_adv s course grade) = Inr ()")
  case True
  then obtain c g where cg: "course = PStr c" "3 \<le> length c" "grade = PNum g" "grade_in_range g"
    by (auto simp: addGrade_adv_accepts_iff)
  then show ?thesis
    by (cases "c \<in> set (od_keys (courses s))")
       (auto simp: addGrade_adv_accepted Student_contains_def od_setitem_keys_present
          od_setitem_keys_absent split: pyval.splits)
next
  case False
  then show ?thesis by (simp add: addGrade_adv_rejected_state)
qed

lemma addGrade_adv_accept_any_state:
  "fst (addGrade_adv s course grade) = Inr () \<longleftrightarrow> fst (addGrade_adv s' course grade) = Inr ()"
  by (simp add: addGrade_adv_accepts_iff)

lemma contains_addGrades_adv:
  "Student_contains (addGrades_adv s calls) x \<longleftrightarrow>
     Student_contains s x \<or>
     (\<exists>grade. (x, grade) \<in> set calls \<and> fst (addGrade_adv s x grade) = Inr ())"
proof (induction calls arbitrary: s)
  case Nil
  then show ?case by (simp add: addGrades_adv_def)
next
  case (Cons call calls)
  obtain c g where call: "call = (c, g)" by (cases call)
  have "addGrades_adv s (call # calls) = addGrades_adv (snd (addGrade_adv s c g)) calls"
    by (simp add: addGrades_adv_def call)
  then show ?case
    using Cons.IH [of "snd (addGrade_adv s c g)"]
      addGrade_adv_accept_any_state [of "snd (addGrade_adv s c g)" _ _ s]
    by (auto simp: call contains_addGrade_adv)
qed

section \<open>Claims on displayCourses and membership\<close>

text \<open>
  Claim C4. In a record whose dictionary has pairwise different keys (every record
  built by \<open>addGrade\<close>, by claim C6), a course stored with a grade equal to 0.0 is in
  the list \<open>displayCourses\<close> returns in neither variant; the advanced variant does
  return a list.
\<close>

theorem C4_failed_courses_excluded:
  "distinct (od_keys (courses s)) \<and> od_getitem (courses s) c = Inr g \<and> py_eq g f0 \<longrightarrow>
     c \<notin> set (displayCourses s) \<and> (\<exists>cs. displayCourses_adv s = Inr cs \<and> c \<notin> set cs)"
proof (intro impI, elim conjE)
  assume d: "distinct (od_keys (courses s))" and g: "od_getitem (courses s) c = Inr g"
    and z: "py_eq g f0"
  from g have "(c, g) \<in> set (courses s)" by (rule od_getitem_Inr_mem)
  with d z have n: "c \<notin> set (displayCourses s)" by (auto dest: zero_grade_not_displayed)
  from displayCourses_adv_sorted [OF d] obtain cs where
    cs: "displayCourses_adv s = Inr cs" "mset cs = mset (displayCourses s)" by blast
  from cs(2) have "set cs = set (displayCourses s)" by (rule mset_eq_setD)
  with n cs(1) show "c \<notin> set (displayCourses s) \<and> (\<exists>cs. displayCourses_adv s = Inr cs \<and> c \<notin> set cs)"
    by simp
qed

theorem C4_witness:
  "distinct (od_keys [(''ipc144'', f4), (''cpp244'', PFloat (Finite (7 / 2))), (''cpp344'', f0)])
 \<and> od_getitem [(''ipc144'', f4), (''cpp244'', PFloat (Finite (7 / 2))), (''cpp344'', f0)]
      ''cpp344'' = Inr f0
 \<and> py_eq f0 f0
 \<and> ''cpp344'' \<notin> set (displayCourses
      \<lparr>name = ''Jessica'', number = ''123456'',
       courses = [(''ipc144'', f4), (''cpp244'', PFloat (Finite (7 / 2))), (''cpp344'', f0)]\<rparr>)
 \<and> (\<exists>cs. displayCourses_adv
      \<lparr>name = ''Jessica'', number = ''123456'',
       courses = [(''ipc144'', f4), (''cpp244'', PFloat (Finite (7 / 2))), (''cpp344'', f0)]\<rparr>
      = Inr cs \<and> ''cpp344'' \<notin> set cs)"
  using C4_failed_courses_excluded [of
      "\<lparr>name = ''Jessica'', number = ''123456'',
        courses = [(''ipc144'', f4), (''cpp244'', PFloat (Finite (7 / 2))), (''cpp344'', f0)]\<rparr>"
      "''cpp344''" f0]
  by (simp add: od_keys_def py_eq_def)

text \<open>
  Claim C5. Base variant: after any sequence of \<open>addGrade\<close> calls on a fresh record,
  \<open>displayCourses\<close> lists the courses in the order of their first insertion, keeping
  those whose last grade is greater than 0.0. Advanced variant: \<open>displayCourses\<close>
  returns a permutation of that list of passed courses whose grades, read from the
  dictionary in the order returned, never increase.
\<close>

theorem C5_displayCourses_order:
  "(courses s = [] \<longrightarrow>
      displayCourses (addGrades s calls) =
        filter (\<lambda>c. case map_of (rev calls) c of Some g \<Rightarrow> py_gt g f0 | None \<Rightarrow> False)
          (rev (remdups (rev (map fst calls)))))
 \<and> (distinct (od_keys (courses s')) \<longrightarrow>
      (\<exists>cs gs. displayCourses_adv s' = Inr cs \<and> mset cs = mset (displayCourses s')
         \<and> map_result (od_getitem (courses s')) cs = Inr gs \<and> sorted_wrt py_ge gs))"
  using displayCourses_insertion_order [of s calls] displayCourses_adv_sorted [of s']
  by blast

theorem C5_witness:
  "courses \<lparr>name = ''John'', number = ''013454900'', courses = []\<rparr> = []
 \<and> displayCourses (addGrades \<lparr>name = ''John'', number = ''013454900'', courses = []\<rparr>
      [(''ops445'', PFloat (Finite 3)), (''ops245'', PFloat (Finite 2)),
       (''uli101'', PFloat (Finite 1)), (''ops445'', f0)])
    = [''ops245'', ''uli101'']
 \<and> distinct (od_keys [(''cpp244'', PFloat (Finite (7 / 2))), (''cpp344'', f0), (''ipc144'', f4)])
 \<and> (\<exists>cs gs. displayCourses_adv
        \<lparr>name = ''Jessica'', number = ''123456'',
         courses = [(''cpp244'', PFloat (Finite (7 / 2))), (''cpp344'', f0), (''ipc144'', f4)]\<rparr>
        = Inr cs
      \<and> mset cs = mset (displayCourses
        \<lparr>name = ''Jessica'', number = ''123456'',
         courses = [(''cpp244'', PFloat (Finite (7 / 2))), (''cpp344'', f0), (''ipc144'', f4)]\<rparr>)
      \<and> map_result (od_getitem
           [(''cpp244'', PFloat (Finite (7 / 2))), (''cpp344'', f0), (''ipc144'', f4)]) cs = Inr gs
      \<and> sorted_wrt py_ge gs)"
  using C5_displayCourses_order [of
      "\<lparr>name = ''John'', number = ''013454900'', courses = []\<rparr>"
      "[(''ops445'', PFloat (Finite 3)), (''ops245'', PFloat (Finite 2)),
        (''uli101'', PFloat (Finite 1)), (''ops445'', f0)]"
      "\<lparr>name = ''Jessica'', number = ''123456'',
        courses = [(''cpp244'', PFloat (Finite (7 / 2))), (''cpp344'', f0), (''ipc144'', f4)]\<rparr>"]
  by (simp add: od_keys_def py_gt_def py_lt_def)

text \<open>
  Claim C9. Advanced variant: after any sequence of \<open>addGrade\<close> calls on a fresh
  record, \<open>course in student\<close> holds exactly of the courses that an accepted call
  (a text of at least 3 characters with a grade in [0.0, 4.0]) added, whatever the
  grade. A course stored with a grade equal to 0.0 is therefore a member, although
  \<open>displayCourses\<close> leaves it out.
\<close>

theorem C9_membership:
  "(courses s = [] \<longrightarrow>
      (Student_contains (addGrades_adv s calls) course \<longleftrightarrow>
         (\<exists>c g. course = PStr c \<and> (PStr c, PNum g) \<in> set calls
            \<and> 3 \<le> length c \<and> grade_in_range g)))
 \<and> (distinct (od_keys (courses s')) \<and> od_getitem (courses s') c' = Inr g' \<and> py_eq g' f0 \<longrightarrow>
      Student_contains s' (PStr c')
    \<and> (\<exists>cs. displayCourses_adv s' = Inr cs \<and> c' \<notin> set cs))"
proof (intro conjI impI)
  assume e: "courses s = []"
  then have "\<not> Student_contains s course"
    by (simp add: Student_contains_def od_keys_def split: pyval.splits)
  then show "Student_contains (addGrades_adv s calls) course \<longleftrightarrow>
         (\<exists>c g. course = PStr c \<and> (PStr c, PNum g) \<in> set calls
            \<and> 3 \<le> length c \<and> grade_in_range g)"
    unfolding contains_addGrades_adv addGrade_adv_accepts_iff by auto
next
  assume a: "distinct (od_keys (courses s')) \<and> od_getitem (courses s') c' = Inr g' \<and> py_eq g' f0"
  then have m: "(c', g') \<in> set (courses s')" by (auto dest: od_getitem_Inr_mem)
  then have "c' \<in> set (od_keys (courses s'))" by (force simp: od_keys_def)
  then show "Student_contains s' (PStr c')" by (simp add: Student_contains_def)
  from a m have n: "c' \<notin> set (displayCourses s')" by (auto dest: zero_grade_not_displayed)
  from a displayCourses_adv_sorted [of s'] obtain cs where
    cs: "displayCourses_adv s' = Inr cs" "mset cs = mset (displayCourses s')" by blast
  from cs(2) have "set cs = set (displayCourses s')" by (rule mset_eq_setD)
  with n cs(1) show "\<exists>cs. displayCourses_adv s' = Inr cs \<and> c' \<notin> set cs" by simp
qed


theorem C9_witness:
  "courses \<lparr>name = ''Jessica'', number = ''123456'', courses = []\<rparr> = []
 \<and> Student_contains
      (addGrades_adv \<lparr>name = ''Jessica'', number = ''123456'', courses = []\<rparr>
         [(PStr ''cpp344'', PNum f0), (PStr ''ab'', PNum f4)])
      (PStr ''cpp344'')
 \<and> \<not> Student_contains
      (addGrades_adv \<lparr>name = ''Jessica'', number = ''123456'', courses = []\<rparr>
         [(PStr ''cpp344'', PNum f0), (PStr ''ab'', PNum f4)])
      (PStr ''ab'')
 \<and> distinct (od_keys [(''ipc144'', f4), (''cpp344'', f0)])
 \<and> od_getitem [(''ipc144'', f4), (''cpp344'', f0)] ''cpp344'' = Inr f0
 \<and> py_eq f0 f0
 \<and> Student_contains
      \<lparr>name = ''Jessica'', number = ''123456'', courses = [(''ipc144'', f4), (''cpp344'', f0)]\<rparr>
      (PStr ''cpp344'')
 \<and> (\<exists>cs. displayCourses_adv
      \<lparr>name = ''Jessica'', number = ''123456'', courses = [(''ipc144'', f4), (''cpp344'', f0)]\<rparr>
      = Inr cs \<and> ''cpp344'' \<notin> set cs)"
  using C9_membership [of "\<lparr>name = ''Jessica'', number = ''123456'', courses = []\<rparr>"
      "[(PStr ''cpp344'', PNum f0), (PStr ''ab'', PNum f4)]" "PStr ''cpp344''"
      "\<lparr>name = ''Jessica'', number = ''123456'', courses = [(''ipc144'', f4), (''cpp344'', f0)]\<rparr>"
      "''cpp344''" f0]
    C9_membership [of "\<lparr>name = ''Jessica'', number = ''123456'', courses = []\<rparr>"
      "[(PStr ''cpp344'', PNum f0), (PStr ''ab'', PNum f4)]" "PStr ''ab''"
      "\<lparr>name = ''Jessica'', number = ''123456'', courses = [(''ipc144'', f4), (''cpp344'', f0)]\<rparr>"
      "''cpp344''" f0]
  by (simp add: od_keys_def py_eq_def)

text \<open>
  The second scenario of the main scripts: the base variant lists in insertion order,
  the advanced variant by descending grade.
\<close>

lemma displayCourses_example:
  "displayCourses
     \<lparr>name = ''Jessica'', number = ''123456'',
      courses = [(''ipc144'', f4), (''cpp244'', PFloat (Finite (7 / 2))), (''cpp344'', f0)]\<rparr>
   = [''ipc144'', ''cpp244'']"
  by (simp add: displayCourses_def py_gt_def py_lt_def)

lemma displayCourses_adv_example:
  "displayCourses_adv
     \<lparr>name = ''Jessica'', number = ''123456'',
      courses = [(''cpp244'', PFloat (Finite (7 / 2))), (''cpp344'', f0), (''ipc144'', f4)]\<rparr>
   = Inr [''ipc144'', ''cpp244'']"
  by (simp add: displayCourses_adv_def py_sorted_def neg_grade_def py_gt_def py_lt_def)

section \<open>Claims on equality and construction\<close>

lemma str_int_example: "str_int 123456 = ''123456''"
  by (simp add: str_int_def str_nat.simps digit_char_def)

lemma py_str_int_example: "py_str_int 123456 = Inr ''123456''"
  by (simp add: py_str_int_def int_max_str_digits_def str_int_def str_nat.simps digit_char_def)

lemma py_str_int_within_limit:
  "length (str_nat (nat \<bar>n\<bar>)) \<le> int_max_str_digits \<Longrightarrow> py_str_int n = Inr (str_int n)"
  by (simp add: py_str_int_def)

lemma py_str_int_beyond_limit:
  "int_max_str_digits < length (str_nat (nat \<bar>n\<bar>)) \<Longrightarrow> py_str_int n = Inl ValueError"
  by (simp add: py_str_int_def)

text \<open>
  What \<open>__init__\<close> returns is the record of its arguments: the name as given, the
  number as the text \<open>str\<close> makes of it, and no course.
\<close>

lemma Student_init_adv_Inr:
  "Student_init_adv F nm num = Inr s \<longleftrightarrow>
     (\<exists>n t. nm = PStr n \<and> isinstance_int_str num \<and> py_str F num = Inr t
        \<and> s = \<lparr>name = n, number = t, courses = []\<rparr>)"
  by (auto simp: Student_init_adv_def split: pyval.splits sum.splits)

text \<open>
  Calling \<open>Student\<close> itself never returns an instance in the advanced variant: after
  \<open>__init__\<close> the metaclass takes a weak reference, which a slotted instance does not
  admit. \<open>ScholarshipStudent\<close> is constructed as its \<open>__init__\<close> says.
\<close>

lemma new_Student_raises: "\<exists>e. new_Student F nm num = Inl e"
  by (simp add: new_Student_def StudentMeta_call_def split: sum.splits)

lemma new_ScholarshipStudent_eq_init:
  "new_ScholarshipStudent F nm num amount = ScholarshipStudent_init F nm num amount"
  by (simp add: new_ScholarshipStudent_def StudentMeta_call_def split: sum.splits)

lemma new_ScholarshipStudent_Inr:
  "new_ScholarshipStudent F nm num amount = Inr s \<longleftrightarrow>
     (\<exists>n t a. nm = PStr n \<and> isinstance_int_str num \<and> py_str F num = Inr t
        \<and> amount = PNum a \<and> \<not> py_lt a (PInt 0)
        \<and> s = \<lparr>name = n, number = t, courses = [], scholarship_amount = a\<rparr>)"
proof (cases "Student_init_adv F nm num")
  case (Inl e)
  then have "\<not> (\<exists>n t. nm = PStr n \<and> isinstance_int_str num \<and> py_str F num = Inr t
        \<and> \<lparr>name = n, number = t, courses = []\<rparr> = \<lparr>name = n, number = t, courses = []\<rparr>)"
    using Student_init_adv_Inr [of F nm num] by auto
  with Inl show ?thesis
    by (auto simp: new_ScholarshipStudent_eq_init ScholarshipStudent_init_def)
next
  case (Inr r)
  then obtain n t where "nm = PStr n" "isinstance_int_str num" "py_str F num = Inr t"
    "r = \<lparr>name = n, number = t, courses = []\<rparr>"
    using Student_init_adv_Inr [of F nm num r] by auto
  with Inr show ?thesis
    by (auto simp: new_ScholarshipStudent_eq_init ScholarshipStudent_init_def
        split: pyval.splits)
qed

lemma new_ScholarshipStudent_beyond_limit:
  "int_max_str_digits < length (str_nat (nat \<bar>n\<bar>)) \<Longrightarrow>
     new_ScholarshipStudent F (PStr nm) (PNum (PInt n)) amount = Inl ValueError"
  by (simp add: new_ScholarshipStudent_eq_init ScholarshipStudent_init_def
      Student_init_adv_def isinstance_int_str_def py_str_int_beyond_limit)

text \<open>
  Claim C7. Two records are equal exactly when their names are equal and their
  numbers, both text, are equal. For constructed records this is a statement about
  the arguments of the constructor: a constructed record holds the name it was given
  and the text \<open>str\<close> makes of the number it was given, so two constructed records are
  equal exactly when the names given are equal and the numbers given have the same
  text. In particular the record constructed with an integer (one \<open>str\<close> converts: of
  at most 4300 digits) and the one constructed with the text of that integer, under
  one name, are the records shown, and are equal. Construction is that of
  \<open>ScholarshipStudent\<close>, the class of the advanced variant whose call returns.
\<close>

theorem C7_equality:
  "(new_ScholarshipStudent F nm1 num1 amount1 = Inr x
    \<and> new_ScholarshipStudent F nm2 num2 amount2 = Inr y \<longrightarrow>
      nm1 = PStr (name x) \<and> py_str F num1 = Inr (number x)
    \<and> nm2 = PStr (name y) \<and> py_str F num2 = Inr (number y)
    \<and> (Student_eq x y \<longleftrightarrow> nm1 = nm2 \<and> py_str F num1 = py_str F num2))
 \<and> (Student_eq a b \<longleftrightarrow> name a = name b \<and> number a = number b)
 \<and> (length (str_nat (nat \<bar>n\<bar>)) \<le> int_max_str_digits
    \<and> \<not> py_lt amount (PInt 0) \<and> \<not> py_lt amount' (PInt 0) \<longrightarrow>
      new_ScholarshipStudent F (PStr nm) (PNum (PInt n)) (PNum amount)
        = Inr \<lparr>name = nm, number = str_int n, courses = [], scholarship_amount = amount\<rparr>
    \<and> new_ScholarshipStudent F (PStr nm) (PStr (str_int n)) (PNum amount')
        = Inr \<lparr>name = nm, number = str_int n, courses = [], scholarship_amount = amount'\<rparr>
    \<and> Student_eq
        \<lparr>name = nm, number = str_int n, courses = [], scholarship_amount = amount\<rparr>
        \<lparr>name = nm, number = str_int n, courses = [], scholarship_amount = amount'\<rparr>)"
proof -
  have constructed: "nm1 = PStr (name x) \<and> py_str F num1 = Inr (number x)
    \<and> nm2 = PStr (name y) \<and> py_str F num2 = Inr (number y)
    \<and> (Student_eq x y \<longleftrightarrow> nm1 = nm2 \<and> py_str F num1 = py_str F num2)"
    if "new_ScholarshipStudent F nm1 num1 amount1 = Inr x
      \<and> new_ScholarshipStudent F nm2 num2 amount2 = Inr y"
    using that by (auto simp: new_ScholarshipStudent_Inr Student_eq_def)
  have records: "Student_eq a b \<longleftrightarrow> name a = name b \<and> number a = number b"
    by (simp add: Student_eq_def)
  have particular: "new_ScholarshipStudent F (PStr nm) (PNum (PInt n)) (PNum amount)
        = Inr \<lparr>name = nm, number = str_int n, courses = [], scholarship_amount = amount\<rparr>
    \<and> new_ScholarshipStudent F (PStr nm) (PStr (str_int n)) (PNum amount')
        = Inr \<lparr>name = nm, number = str_int n, courses = [], scholarship_amount = amount'\<rparr>
    \<and> Student_eq
        \<lparr>name = nm, number = str_int n, courses = [], scholarship_amount = amount\<rparr>
        \<lparr>name = nm, number = str_int n, courses = [], scholarship_amount = amount'\<rparr>"
    if "length (str_nat (nat \<bar>n\<bar>)) \<le> int_max_str_digits
      \<and> \<not> py_lt amount (PInt 0) \<and> \<not> py_lt amount' (PInt 0)"
    using that
    by (simp add: new_ScholarshipStudent_Inr isinstance_int_str_def py_str_int_within_limit
        Student_eq_def)
  from constructed records particular show ?thesis
    by blast
qed

theorem C7_witness:
  "\<forall>F. length (str_nat (nat \<bar>123456\<bar>)) \<le> int_max_str_digits
 \<and> \<not> py_lt (PInt 5000) (PInt 0) \<and> \<not> py_lt (PFloat (Finite (5 / 2))) (PInt 0)
 \<and> new_ScholarshipStudent F (PStr ''Jessica'') (PNum (PInt 123456)) (PNum (PInt 5000))
     = Inr \<lparr>name = ''Jessica'', number = ''123456'', courses = [],
            scholarship_amount = PInt 5000\<rparr>
 \<and> new_ScholarshipStudent F (PStr ''Jessica'') (PStr ''123456'')
       (PNum (PFloat (Finite (5 / 2))))
     = Inr \<lparr>name = ''Jessica'', number = ''123456'', courses = [],
            scholarship_amount = PFloat (Finite (5 / 2))\<rparr>
 \<and> Student_eq
      \<lparr>name = ''Jessica'', number = ''123456'', courses = [], scholarship_amount = PInt 5000\<rparr>
      \<lparr>name = ''Jessica'', number = ''123456'', courses = [],
       scholarship_amount = PFloat (Finite (5 / 2))\<rparr>
 \<and> new_ScholarshipStudent F (PStr ''John'') (PStr ''013454900'') (PNum (PInt 0))
     = Inr \<lparr>name = ''John'', number = ''013454900'', courses = [],
            scholarship_amount = PInt 0\<rparr>
 \<and> \<not> Student_eq
      \<lparr>name = ''Jessica'', number = ''123456'', courses = [], scholarship_amount = PInt 5000\<rparr>
      \<lparr>name = ''John'', number = ''013454900'', courses = [], scholarship_amount = PInt 0\<rparr>
 \<and> \<not> Student_eq
      \<lparr>name = ''Jessica'', number = ''123456'', courses = []\<rparr>
      \<lparr>name = ''Jessica'', number = ''0123456'', courses = []\<rparr>"
proof
  fix F
  have j: "new_ScholarshipStudent F (PStr ''Jessica'') (PNum (PInt 123456)) (PNum (PInt 5000))
     = Inr \<lparr>name = ''Jessica'', number = ''123456'', courses = [],
            scholarship_amount = PInt 5000\<rparr>"
    by (simp add: new_ScholarshipStudent_Inr isinstance_int_str_def py_str_int_example
        py_lt_def)
  have k: "new_ScholarshipStudent F (PStr ''John'') (PStr ''013454900'') (PNum (PInt 0))
     = Inr \<lparr>name = ''John'', number = ''013454900'', courses = [],
            scholarship_amount = PInt 0\<rparr>"
    by (simp add: new_ScholarshipStudent_Inr isinstance_int_str_def py_lt_def)
  have lim: "length (str_nat (nat \<bar>123456\<bar>)) \<le> int_max_str_digits"
    by (simp add: int_max_str_digits_def str_nat.simps)
  show "length (str_nat (nat \<bar>123456\<bar>)) \<le> int_max_str_digits
 \<and> \<not> py_lt (PInt 5000) (PInt 0) \<and> \<not> py_lt (PFloat (Finite (5 / 2))) (PInt 0)
 \<and> new_ScholarshipStudent F (PStr ''Jessica'') (PNum (PInt 123456)) (PNum (PInt 5000))
     = Inr \<lparr>name = ''Jessica'', number = ''123456'', courses = [],
            scholarship_amount = PInt 5000\<rparr>
 \<and> new_ScholarshipStudent F (PStr ''Jessica'') (PStr ''123456'')
       (PNum (PFloat (Finite (5 / 2))))
     = Inr \<lparr>name = ''Jessica'', number = ''123456'', courses = [],
            scholarship_amount = PFloat (Finite (5 / 2))\<rparr>
 \<and> Student_eq
      \<lparr>name = ''Jessica'', number = ''123456'', courses = [], scholarship_amount = PInt 5000\<rparr>
      \<lparr>name = ''Jessica'', number = ''123456'', courses = [],
       scholarship_amount = PFloat (Finite (5 / 2))\<rparr>
 \<and> new_ScholarshipStudent F (PStr ''John'') (PStr ''013454900'') (PNum (PInt 0))
     = Inr \<lparr>name = ''John'', number = ''013454900'', courses = [],
            scholarship_amount = PInt 0\<rparr>
 \<and> \<not> Student_eq
      \<lparr>name = ''Jessica'', number = ''123456'', courses = [], scholarship_amount = PInt 5000\<rparr>
      \<lparr>name = ''John'', number = ''013454900'', courses = [], scholarship_amount = PInt 0\<rparr>
 \<and> \<not> Student_eq
      \<lparr>name = ''Jessica'', number = ''123456'', courses = []\<rparr>
      \<lparr>name = ''Jessica'', number = ''0123456'', courses = []\<rparr>"
    using lim k
      C7_equality [of F "PStr ''Jessica''" "PNum (PInt 123456)" "PNum (PInt 5000)"
        "\<lparr>name = ''Jessica'', number = ''123456'', courses = [],
          scholarship_amount = PInt 5000\<rparr>"
        "PStr ''John''" "PStr ''013454900''" "PNum (PInt 0)"
        "\<lparr>name = ''John'', number = ''013454900'', courses = [],
          scholarship_amount = PInt 0\<rparr>"
        "\<lparr>name = ''Jessica'', number = ''123456'', courses = []\<rparr>"
        "\<lparr>name = ''Jessica'', number = ''0123456'', courses = []\<rparr>"
        123456 "PInt 5000" "PFloat (Finite (5 / 2))" "''Jessica''", unfolded str_int_example]
    by (simp add: j py_lt_def)
qed

section \<open>Claims on displayGPA\<close>

text \<open>
  The base variant computes the text anew at every call, from the courses as they
  are: with no course it ends in 0.0, and after \<open>addGrade\<close> it is the mean of the
  updated grades to one decimal.
\<close>

lemma od_setitem_not_Nil: "od_setitem k v kvs \<noteq> []"
  by (cases kvs) (auto split: if_splits)

lemma displayGPA_no_courses:
  "courses s = [] \<Longrightarrow> displayGPA F s = ''GPA of student '' @ name s @ '' is 0.0''"
  by (simp add: displayGPA_def)

lemma displayGPA_recomputed:
  "displayGPA F (addGrade s c g) =
     ''GPA of student '' @ name s @ '' is '' @
       fl_format F 1 (fl_truediv F (fl_sum F (od_values (od_setitem c g (courses s))))
         (length (od_setitem c g (courses s))))"
  by (simp add: displayGPA_def addGrade_def od_setitem_not_Nil)

text \<open>
  In the advanced variant \<open>displayGPA\<close> raises \<open>TypeError\<close> on every record: the
  cache hashes \<open>self\<close>, and the class is unhashable.
\<close>

lemma displayGPA_adv_raises: "displayGPA_adv F s = Inl TypeError"
  by (simp add: displayGPA_adv_def lru_cache_call_def Student_hash_def)

lemma jessica_constructed:
  "new_ScholarshipStudent F (PStr ''Jessica'') (PNum (PInt 123456)) (PNum (PInt 5000))
   = Inr \<lparr>name = ''Jessica'', number = ''123456'', courses = [],
          scholarship_amount = PInt 5000\<rparr>"
  by (simp add: new_ScholarshipStudent_Inr isinstance_int_str_def py_str_int_example
      py_lt_def)

lemma jessica_grades:
  "addGrades_adv \<lparr>name = ''Jessica'', number = ''123456'', courses = [],
                  scholarship_amount = PInt 5000\<rparr>
     [(PStr ''ipc144'', PNum f4), (PStr ''cpp244'', PNum (PFloat (Finite (7 / 2))))]
   = \<lparr>name = ''Jessica'', number = ''123456'',
      courses = [(''ipc144'', f4), (''cpp244'', PFloat (Finite (7 / 2)))],
      scholarship_amount = PInt 5000\<rparr>"
  by (simp add: addGrades_adv_def addGrade_adv_def)

text \<open>
  Claim C1, at the record of the advanced main script (Jessica, with grades 4.0 and
  3.5) and at the same record with no course: the claim has \<open>displayGPA\<close> return the
  mean to two decimals, and 0.0 for no course; the advanced variant raises
  \<open>TypeError\<close> at both.
\<close>

theorem C1_displayGPA_adv_raises:
  "displayGPA_adv F
     \<lparr>name = ''Jessica'', number = ''123456'',
      courses = [(''ipc144'', f4), (''cpp244'', PFloat (Finite (7 / 2)))],
      scholarship_amount = PInt 5000\<rparr> = Inl TypeError
 \<and> displayGPA_adv F
     \<lparr>name = ''Jessica'', number = ''123456'', courses = [],
      scholarship_amount = PInt 5000\<rparr> = Inl TypeError"
  by (simp add: displayGPA_adv_def lru_cache_call_def Student_hash_def)

text \<open>
  Claim C3, at the same record: the claim has the call of \<open>displayGPA\<close> that follows
  an accepted \<open>addGrade\<close> return the GPA of the updated courses; in the advanced
  variant the call before and the call after both raise \<open>TypeError\<close>.
\<close>

theorem C3_displayGPA_adv_after_addGrade:
  "displayGPA_adv F
     \<lparr>name = ''Jessica'', number = ''123456'',
      courses = [(''ipc144'', f4), (''cpp244'', PFloat (Finite (7 / 2)))],
      scholarship_amount = PInt 5000\<rparr> = Inl TypeError
 \<and> addGrade_adv
     \<lparr>name = ''Jessica'', number = ''123456'',
      courses = [(''ipc144'', f4), (''cpp244'', PFloat (Finite (7 / 2)))],
      scholarship_amount = PInt 5000\<rparr> (PStr ''cpp344'') (PNum f0)
   = (Inr (),
      \<lparr>name = ''Jessica'', number = ''123456'',
       courses = [(''ipc144'', f4), (''cpp244'', PFloat (Finite (7 / 2))), (''cpp344'', f0)],
       scholarship_amount = PInt 5000\<rparr>)
 \<and> displayGPA_adv F
     \<lparr>name = ''Jessica'', number = ''123456'',
      courses = [(''ipc144'', f4), (''cpp244'', PFloat (Finite (7 / 2))), (''cpp344'', f0)],
      scholarship_amount = PInt 5000\<rparr> = Inl TypeError"
  by (simp add: displayGPA_adv_def lru_cache_call_def Student_hash_def addGrade_adv_def)

text \<open>
  A negative amount is refused, so the amount of a constructed
  \<open>ScholarshipStudent\<close> is not less than 0.
\<close>

lemma ScholarshipStudent_negative_amount:
  "py_lt a (PInt 0) \<Longrightarrow> \<exists>e. new_ScholarshipStudent F nm num (PNum a) = Inl e"
  by (simp add: new_ScholarshipStudent_eq_init ScholarshipStudent_init_def split: sum.splits)

lemma ScholarshipStudent_amount_not_negative:
  "new_ScholarshipStudent F nm num amount = Inr s \<Longrightarrow> \<not> py_lt (scholarship_amount s) (PInt 0)"
  by (auto simp: new_ScholarshipStudent_eq_init ScholarshipStudent_init_def
      split: sum.splits pyval.splits if_splits)

text \<open>
  Claim C8, at the same record, whose mean 3.75 is greater than 3.5: the claim has
  \<open>isEligible\<close> return true; it raises the \<open>TypeError\<close> of \<open>displayGPA\<close>.
\<close>

theorem C8_isEligible_raises:
  "isEligible F
     \<lparr>name = ''Jessica'', number = ''123456'',
      courses = [(''ipc144'', f4), (''cpp244'', PFloat (Finite (7 / 2)))],
      scholarship_amount = PInt 5000\<rparr> = Inl TypeError"
  by (simp add: isEligible_def displayGPA_adv_def lru_cache_call_def Student_hash_def)

end
